theory Spec2Isabelle
  imports Complex_Main "HOL-Library.Word" "HOL-Library.Char_ord" "HOL-Library.List_Lexorder"
    "HOL-Library.Finite_Map"
begin

chapter \<open>The currency-rate query service\<close>

text \<open>
  A shallow embedding of the wallet service: the temporal value codec
  (\<^verbatim>\<open>internal/currency_helpers/time.go\<close>), the currency value types of package
  \<^verbatim>\<open>currency_helpers\<close>, the Redis cache (package \<^verbatim>\<open>cache\<close>) and the four HTTP handlers
  of the query orchestrator (package \<^verbatim>\<open>service\<close>, type \<^verbatim>\<open>HttpService\<close>).

  Go errors are strings (the text of \<^verbatim>\<open>err.Error()\<close>); a function that returns
  \<^verbatim>\<open>(T, error)\<close> returns \<open>error + T\<close>, with \<open>Inl\<close> the error.
\<close>

section \<open>Errors\<close>

type_synonym error = string

definition Wrap :: "error \<Rightarrow> string \<Rightarrow> error" where
  \<comment> \<open>\<^verbatim>\<open>errors.Wrap(err, msg)\<close>: the message, a colon, the cause.\<close>
  "Wrap err msg = msg @ '': '' @ err"

section \<open>Calendar time\<close>

text \<open>
  Go's \<^verbatim>\<open>time.Time\<close> is an instant with a location. The model keeps it as the
  civil reading in its own location: \<^verbatim>\<open>t.Date()\<close> reads the first three fields,
  \<open>nanos\<close> counts the nanoseconds since local midnight and \<open>zone\<close> is the offset east of
  UTC in seconds. The instant itself (\<open>instant\<close>, nanoseconds since
  0001-01-01T00:00:00Z) is computed from the fields, as \<^verbatim>\<open>time.Date\<close> does.
\<close>

record Time =
  year :: int
  month :: nat
  day :: nat
  nanos :: nat
  zone :: int

definition zeroTime :: Time where
  \<comment> \<open>\<^verbatim>\<open>time.Time{}\<close>: January 1, year 1, 00:00:00 UTC.\<close>
  "zeroTime = \<lparr>year = 1, month = 1, day = 1, nanos = 0, zone = 0\<rparr>"

definition isLeap :: "int \<Rightarrow> bool" where
  "isLeap y = (y mod 4 = 0 \<and> (y mod 100 \<noteq> 0 \<or> y mod 400 = 0))"

definition daysBefore :: "nat \<Rightarrow> nat" where
  \<comment> \<open>\<^verbatim>\<open>daysBefore[m]\<close>: days of a non-leap year before month \<open>m + 1\<close>.\<close>
  "daysBefore m = [0, 31, 59, 90, 120, 151, 181, 212, 243, 273, 304, 334, 365] ! m"

definition daysIn :: "nat \<Rightarrow> int \<Rightarrow> nat" where
  "daysIn m y = (if m = 2 \<and> isLeap y then 29 else daysBefore m - daysBefore (m - 1))"

definition validDate :: "int \<Rightarrow> nat \<Rightarrow> nat \<Rightarrow> bool" where
  "validDate y m d = (1 \<le> m \<and> m \<le> 12 \<and> 1 \<le> d \<and> d \<le> daysIn m y)"

definition daysSinceYear1 :: "int \<Rightarrow> nat \<Rightarrow> int \<Rightarrow> int" where
  \<comment> \<open>Days from 0001-01-01 to the given day of the given month; the day may lie outside
      the month, as in \<^verbatim>\<open>time.Date(y, m, d - 1, ...)\<close>.\<close>
  "daysSinceYear1 y m d =
     365 * (y - 1) + (y - 1) div 4 - (y - 1) div 100 + (y - 1) div 400
       + int (daysBefore (m - 1)) + (if isLeap y \<and> 3 \<le> m then 1 else 0) + (d - 1)"

definition instant :: "Time \<Rightarrow> int" where
  "instant t =
     (daysSinceYear1 (year t) (month t) (int (day t)) * 86400 - zone t) * 1000000000
       + int (nanos t)"

definition UnixNano :: "Time \<Rightarrow> 64 word" where
  \<comment> \<open>\<^verbatim>\<open>t.UnixNano()\<close>: an int64, which wraps outside the years 1678 to 2262.\<close>
  "UnixNano t = word_of_int (instant t - 62135596800 * 1000000000)"

definition Equal :: "Time \<Rightarrow> Time \<Rightarrow> bool" where
  "Equal t u = (instant t = instant u)"

definition After :: "Time \<Rightarrow> Time \<Rightarrow> bool" where
  "After t u = (instant t > instant u)"

definition Before :: "Time \<Rightarrow> Time \<Rightarrow> bool" where
  "Before t u = (instant t < instant u)"

subsection \<open>Day arithmetic of \<^verbatim>\<open>time.Date\<close>\<close>

definition nextDay :: "Time \<Rightarrow> Time" where
  "nextDay t =
     (if day t < daysIn (month t) (year t) then t\<lparr>day := day t + 1\<rparr>
      else if month t < 12 then t\<lparr>month := month t + 1, day := 1\<rparr>
      else t\<lparr>year := year t + 1, month := 1, day := 1\<rparr>)"

definition prevDay :: "Time \<Rightarrow> Time" where
  "prevDay t =
     (if 1 < day t then t\<lparr>day := day t - 1\<rparr>
      else if 1 < month t then t\<lparr>month := month t - 1, day := daysIn (month t - 1) (year t)\<rparr>
      else t\<lparr>year := year t - 1, month := 12, day := 31\<rparr>)"

definition addDays :: "int \<Rightarrow> Time \<Rightarrow> Time" where
  "addDays k t = (if 0 \<le> k then (nextDay ^^ nat k) t else (prevDay ^^ nat (- k)) t)"

definition time_Date :: "int \<Rightarrow> nat \<Rightarrow> int \<Rightarrow> Time" where
  \<comment> \<open>\<^verbatim>\<open>time.Date(y, m, d, 0, 0, 0, 0, time.UTC)\<close> for a month in range: a day outside
      the month is normalised by counting days from the first of the month.\<close>
  "time_Date y m d = addDays (d - 1) \<lparr>year = y, month = m, day = 1, nanos = 0, zone = 0\<rparr>"

subsection \<open>The layout \<^verbatim>\<open>2006-01-02\<close>\<close>

definition isDigit :: "char \<Rightarrow> bool" where
  "isDigit c = (CHR ''0'' \<le> c \<and> c \<le> CHR ''9'')"

definition digitVal :: "char \<Rightarrow> nat" where
  "digitVal c = of_char c - 48"

definition digitChar :: "nat \<Rightarrow> char" where
  "digitChar n = char_of (48 + n)"

fun natDigits :: "nat \<Rightarrow> string" where
  "natDigits n = (if n < 10 then [digitChar n] else natDigits (n div 10) @ [digitChar (n mod 10)])"

declare natDigits.simps [simp del]

definition appendInt :: "int \<Rightarrow> nat \<Rightarrow> string" where
  \<comment> \<open>\<^verbatim>\<open>appendInt(b, x, width)\<close>: decimal, zero-padded to the width, with a sign.\<close>
  "appendInt x width =
     (let ds = natDigits (nat \<bar>x\<bar>)
      in (if x < 0 then ''-'' else []) @ replicate (width - length ds) (CHR ''0'') @ ds)"

definition Format :: "Time \<Rightarrow> string" where
  \<comment> \<open>\<^verbatim>\<open>t.Format(CustomTimeLayout)\<close>.\<close>
  "Format t = appendInt (year t) 4 @ ''-'' @ appendInt (int (month t)) 2 @ ''-''
                @ appendInt (int (day t)) 2"

fun Parse :: "string \<Rightarrow> Time option" where
  \<comment> \<open>\<^verbatim>\<open>time.Parse(CustomTimeLayout, s)\<close>: four digits, two digits, two digits, the
      month and the day in range, and no other text.\<close>
  "Parse [y1, y2, y3, y4, s1, m1, m2, s2, d1, d2] =
     (if isDigit y1 \<and> isDigit y2 \<and> isDigit y3 \<and> isDigit y4 \<and> s1 = CHR ''-''
         \<and> isDigit m1 \<and> isDigit m2 \<and> s2 = CHR ''-'' \<and> isDigit d1 \<and> isDigit d2
      then
        (let y = int (1000 * digitVal y1 + 100 * digitVal y2 + 10 * digitVal y3 + digitVal y4);
             m = 10 * digitVal m1 + digitVal m2;
             d = 10 * digitVal d1 + digitVal d2
         in if validDate y m d
            then Some \<lparr>year = y, month = m, day = d, nanos = 0, zone = 0\<rparr>
            else None)
      else None)"
| "Parse _ = None"

section \<open>The temporal value codec (\<^verbatim>\<open>CustomTime\<close>)\<close>

definition nilTime :: "64 word" where
  \<comment> \<open>\<^verbatim>\<open>var nilTime = (time.Time{}).UnixNano()\<close>\<close>
  "nilTime = UnixNano zeroTime"

definition Trim :: "string \<Rightarrow> char \<Rightarrow> string" where
  \<comment> \<open>\<^verbatim>\<open>strings.Trim(s, cutset)\<close> for a cutset of one character.\<close>
  "Trim s c = rev (dropWhile (\<lambda>x. x = c) (rev (dropWhile (\<lambda>x. x = c) s)))"

definition UnmarshalJSON :: "(string \<Rightarrow> error + Time) \<Rightarrow> string \<Rightarrow> error + Time" where
  \<comment> \<open>\<^verbatim>\<open>CustomTime.UnmarshalJSON\<close>. The first argument is
      \<^verbatim>\<open>time.Parse(time.RFC3339, _)\<close>, the fallback of the standard library.\<close>
  "UnmarshalJSON rfc3339 b =
     (let s = Trim b (CHR 0x22)
      in if s = ''null'' then Inr zeroTime
         else (case Parse s of
                 Some t \<Rightarrow> Inr t
               | None \<Rightarrow> rfc3339 s))"

definition MarshalJSON :: "Time \<Rightarrow> error + string" where
  \<comment> \<open>\<^verbatim>\<open>CustomTime.MarshalJSON\<close>\<close>
  "MarshalJSON ct =
     (if UnixNano ct = nilTime then Inr ''null''
      else Inr ([CHR 0x22] @ Format ct @ [CHR 0x22]))"

definition IsSet :: "Time \<Rightarrow> bool" where
  "IsSet ct = (UnixNano ct \<noteq> nilTime)"

section \<open>Currency values\<close>

type_synonym CurrencyCode = string

type_synonym Currency = int

definition AvailableCurrencies :: string where
  "AvailableCurrencies = ''available''"

definition CurrentTimeRateCollection :: string where
  "CurrentTimeRateCollection = ''rate:collection''"

definition TimeCollection :: string where
  "TimeCollection = ''time:collection''"

text \<open>
  A \<^verbatim>\<open>float64\<close> rate is only stored and handed on, never computed with: it is a \<open>real\<close>.
  A Go map is a finite map; reading a key it does not hold gives the zero value.
\<close>

definition index0 :: "('k, real) fmap \<Rightarrow> 'k \<Rightarrow> real" where
  \<comment> \<open>\<^verbatim>\<open>m[k]\<close> on a \<^verbatim>\<open>map[K]float64\<close>\<close>
  "index0 m k = (case fmlookup m k of Some v \<Rightarrow> v | None \<Rightarrow> 0)"

record CurrencyRates =
  CRs_Base :: CurrencyCode
  CRs_Rates :: "(CurrencyCode, real) fmap"
  CRs_Date :: Time

record CurrencyRate =
  CR_Base :: CurrencyCode
  CR_Second :: CurrencyCode
  CR_Rate :: real
  CR_Date :: Time

record CurrencyTimelineRates =
  CTRs_Base :: CurrencyCode
  CTRs_Rates :: "(Time, (CurrencyCode, real) fmap) fmap"
  CTRs_StartDate :: Time
  CTRs_EndDate :: Time

record CurrencyTimelineRate =
  CTR_Base :: CurrencyCode
  CTR_Second :: CurrencyCode
  CTR_Rates :: "(Time, real) fmap"
  CTR_Predictions :: "(Time, real) fmap"
  CTR_StartDate :: Time
  CTR_EndDate :: Time

record CurrencyWithBanStatus =
  Currency :: CurrencyCode
  Banned :: bool

definition ToResultRate :: "CurrencyRates \<Rightarrow> CurrencyCode \<Rightarrow> CurrencyRate" where
  "ToResultRate cr currencyCode =
     \<lparr>CR_Base = CRs_Base cr, CR_Second = currencyCode,
      CR_Rate = index0 (CRs_Rates cr) currencyCode, CR_Date = CRs_Date cr\<rparr>"

definition ToResultTimelineRates :: "CurrencyTimelineRates \<Rightarrow> CurrencyCode \<Rightarrow> CurrencyTimelineRate" where
  \<comment> \<open>The loop copies every period with the rate of the one currency; the predictions stay
      the nil map.\<close>
  "ToResultTimelineRates cr currencyCode =
     \<lparr>CTR_Base = CTRs_Base cr, CTR_Second = currencyCode,
      CTR_Rates = fmmap (\<lambda>rate. index0 rate currencyCode) (CTRs_Rates cr),
      CTR_Predictions = fmempty,
      CTR_StartDate = CTRs_StartDate cr, CTR_EndDate = CTRs_EndDate cr\<rparr>"

section \<open>The cache backend\<close>

text \<open>
  The Redis server as the cache uses it: string keys, hashes of fields, and a fault that
  makes every command fail (the server cannot be reached, the context has expired). A
  command's \<^verbatim>\<open>Result()\<close> is the error \<^verbatim>\<open>redis.RedisNil\<close>, another error, or a value.
  \<^verbatim>\<open>HSET\<close> answers with the number of fields it created, which is zero for a field
  that was there before; \<^verbatim>\<open>DEL\<close> answers with the number of keys it removed.
\<close>

datatype 'a reply = RedisNil | Err error | Val 'a

record redis =
  strings :: "string \<rightharpoonup> string"
  hashes :: "string \<Rightarrow> string \<rightharpoonup> string"
  fault :: "error option"

definition rds_Get :: "redis \<Rightarrow> string \<Rightarrow> string reply" where
  "rds_Get r k =
     (case fault r of
        Some e \<Rightarrow> Err e
      | None \<Rightarrow> (case strings r k of None \<Rightarrow> RedisNil | Some v \<Rightarrow> Val v))"

definition rds_Set :: "redis \<Rightarrow> string \<Rightarrow> string \<Rightarrow> string reply \<times> redis" where
  "rds_Set r k v =
     (case fault r of
        Some e \<Rightarrow> (Err e, r)
      | None \<Rightarrow> (Val ''OK'', r\<lparr>strings := (strings r)(k \<mapsto> v)\<rparr>))"

definition rds_Del :: "redis \<Rightarrow> string \<Rightarrow> int reply \<times> redis" where
  "rds_Del r k =
     (case fault r of
        Some e \<Rightarrow> (Err e, r)
      | None \<Rightarrow> (Val (if strings r k = None then 0 else 1), r\<lparr>strings := (strings r)(k := None)\<rparr>))"

definition rds_HGet :: "redis \<Rightarrow> string \<Rightarrow> string \<Rightarrow> string reply" where
  "rds_HGet r k f =
     (case fault r of
        Some e \<Rightarrow> Err e
      | None \<Rightarrow> (case hashes r k f of None \<Rightarrow> RedisNil | Some v \<Rightarrow> Val v))"

definition rds_HSet :: "redis \<Rightarrow> string \<Rightarrow> string \<Rightarrow> string \<Rightarrow> int reply \<times> redis" where
  "rds_HSet r k f v =
     (case fault r of
        Some e \<Rightarrow> (Err e, r)
      | None \<Rightarrow> (Val (if hashes r k f = None then 1 else 0),
                 r\<lparr>hashes := (hashes r)(k := (hashes r k)(f \<mapsto> v))\<rparr>))"

section \<open>The rate cache (\<^verbatim>\<open>Redis\<close>)\<close>

text \<open>
  \<^verbatim>\<open>encoding/json\<close> is a parameter: one decoder and one encoder for each stored type.
  A decoder answers with an error on a malformed payload. The decoded availability list
  is a Go slice, which can be \<^verbatim>\<open>nil\<close> (\<open>None\<close>): \<^verbatim>\<open>json.Unmarshal\<close> leaves the slice
  \<^verbatim>\<open>nil\<close> on the payload \<^verbatim>\<open>null\<close>.
\<close>

record json =
  Unmarshal_available :: "string \<Rightarrow> error + CurrencyWithBanStatus list option"
  Marshal_available :: "CurrencyWithBanStatus list \<Rightarrow> error + string"
  Unmarshal_rates :: "string \<Rightarrow> error + CurrencyRates"
  Marshal_rates :: "CurrencyRates \<Rightarrow> error + string"
  Unmarshal_timeline :: "string \<Rightarrow> error + CurrencyTimelineRate"
  Marshal_timeline :: "CurrencyTimelineRate \<Rightarrow> error + string"

definition Redis_GetAvailableCurrencies ::
  "json \<Rightarrow> redis \<Rightarrow> error + CurrencyWithBanStatus list option" where
  "Redis_GetAvailableCurrencies j r =
     (case rds_Get r AvailableCurrencies of
        RedisNil \<Rightarrow> Inr None
      | Err err \<Rightarrow> Inl (Wrap err ''error in getting available currencies'')
      | Val jsonData \<Rightarrow>
          (case Unmarshal_available j jsonData of
             Inl err \<Rightarrow> Inl (Wrap err ''parse currency currency availability data'')
           | Inr result \<Rightarrow> Inr result))"

definition Redis_SetAvailableCurrencies ::
  "json \<Rightarrow> redis \<Rightarrow> CurrencyWithBanStatus list \<Rightarrow> error option \<times> redis" where
  \<comment> \<open>The entry expires after 24 hours; expiry is not modelled, an entry may be gone at
      any later read.\<close>
  "Redis_SetAvailableCurrencies j r availableCurrencies =
     (case Marshal_available j availableCurrencies of
        Inl err \<Rightarrow> (Some (Wrap err ''error in marshal data for redis''), r)
      | Inr data \<Rightarrow>
          (case rds_Set r AvailableCurrencies data of
             (Err err, r') \<Rightarrow> (Some (Wrap err ''save available currencies''), r')
           | (RedisNil, r') \<Rightarrow> (Some (Wrap ''redis: nil'' ''save available currencies''), r')
           | (Val saved, r') \<Rightarrow>
               if saved = [] then (Some ''save no info'', r') else (None, r')))"

definition Redis_CleanCacheForAvailableCurrencies :: "redis \<Rightarrow> error option \<times> redis" where
  "Redis_CleanCacheForAvailableCurrencies r =
     (case rds_Del r AvailableCurrencies of
        (Err err, r') \<Rightarrow> (Some (Wrap err ''del available currencies''), r')
      | (RedisNil, r') \<Rightarrow> (Some (Wrap ''redis: nil'' ''del available currencies''), r')
      | (Val count, r') \<Rightarrow>
          if count = 0 then (Some ''deleted no info'', r') else (None, r'))"

definition Redis_GetCurrencyLastRate ::
  "json \<Rightarrow> redis \<Rightarrow> CurrencyCode \<Rightarrow> CurrencyCode \<Rightarrow> error + CurrencyRate option" where
  "Redis_GetCurrencyLastRate j r currencyCodeBase currencyCodeSecond =
     (case rds_HGet r CurrentTimeRateCollection currencyCodeBase of
        RedisNil \<Rightarrow> Inr None
      | Err err \<Rightarrow> Inl (Wrap err ''get currency last rate error'')
      | Val jsonData \<Rightarrow>
          (case Unmarshal_rates j jsonData of
             Inl err \<Rightarrow> Inl (Wrap err ''parse currency rate data'')
           | Inr result \<Rightarrow> Inr (Some (ToResultRate result currencyCodeSecond))))"

definition Redis_SetCurrencyLastRate ::
  "json \<Rightarrow> redis \<Rightarrow> CurrencyRates \<Rightarrow> error option \<times> redis" where
  "Redis_SetCurrencyLastRate j r currencyRates =
     (case Marshal_rates j currencyRates of
        Inl err \<Rightarrow> (Some (Wrap err ''error in marshal data for redis''), r)
      | Inr data \<Rightarrow>
          (case rds_HSet r CurrentTimeRateCollection (CRs_Base currencyRates) data of
             (Err err, r') \<Rightarrow> (Some (Wrap err ''save currency last rate''), r')
           | (RedisNil, r') \<Rightarrow> (Some (Wrap ''redis: nil'' ''save currency last rate''), r')
           | (Val count, r') \<Rightarrow>
               if count = 0 then (Some ''save no info'', r') else (None, r')))"

definition timelineField :: "CurrencyCode \<Rightarrow> CurrencyCode \<Rightarrow> string" where
  \<comment> \<open>\<^verbatim>\<open>fmt.Sprintf("%s:%s", base, second)\<close>\<close>
  "timelineField base second = base @ '':'' @ second"

definition Redis_GetTimestampRate ::
  "json \<Rightarrow> redis \<Rightarrow> CurrencyCode \<Rightarrow> CurrencyCode \<Rightarrow> error + CurrencyTimelineRate option" where
  "Redis_GetTimestampRate j r currencyCodeBase currencyCodeSecond =
     (case rds_HGet r TimeCollection (timelineField currencyCodeBase currencyCodeSecond) of
        RedisNil \<Rightarrow> Inr None
      | Err err \<Rightarrow> Inl (Wrap err ''get timestamp rate error'')
      | Val jsonData \<Rightarrow>
          (case Unmarshal_timeline j jsonData of
             Inl err \<Rightarrow> Inl (Wrap err ''parse timestamp rate data'')
           | Inr result \<Rightarrow> Inr (Some result)))"

definition Redis_SaveTimestampRate ::
  "json \<Rightarrow> redis \<Rightarrow> CurrencyTimelineRate \<Rightarrow> error option \<times> redis" where
  "Redis_SaveTimestampRate j r rate =
     (case Marshal_timeline j rate of
        Inl err \<Rightarrow> (Some (Wrap err ''error in marshal data for redis''), r)
      | Inr data \<Rightarrow>
          (case rds_HSet r TimeCollection (timelineField (CTR_Base rate) (CTR_Second rate)) data of
             (Err err, r') \<Rightarrow> (Some (Wrap err ''save currency last rate''), r')
           | (RedisNil, r') \<Rightarrow> (Some (Wrap ''redis: nil'' ''save currency last rate''), r')
           | (Val count, r') \<Rightarrow>
               if count = 0 then (Some ''save no info'', r') else (None, r')))"

section \<open>Example values\<close>

definition json0 :: json where
  \<comment> \<open>A codec that knows the payload \<^verbatim>\<open>null\<close> and rejects every other stored text.\<close>
  "json0 =
     \<lparr>Unmarshal_available = (\<lambda>s. if s = ''null'' then Inr None else Inl ''invalid character''),
      Marshal_available = (\<lambda>xs. Inr ''[list]''),
      Unmarshal_rates = (\<lambda>s. Inl ''invalid character''),
      Marshal_rates = (\<lambda>cr. Inr ''{rates}''),
      Unmarshal_timeline = (\<lambda>s. Inl ''invalid character''),
      Marshal_timeline = (\<lambda>tl. Inr ''{timeline}'')\<rparr>"

definition day_2024_01_01 :: Time where
  "day_2024_01_01 = \<lparr>year = 2024, month = 1, day = 1, nanos = 0, zone = 0\<rparr>"

definition usd_rates :: CurrencyRates where
  "usd_rates = \<lparr>CRs_Base = ''USD'', CRs_Rates = fmupd ''EUR'' (9 / 10) fmempty,
                 CRs_Date = day_2024_01_01\<rparr>"

definition usd_eur_timeline :: CurrencyTimelineRate where
  "usd_eur_timeline =
     \<lparr>CTR_Base = ''USD'', CTR_Second = ''EUR'', CTR_Rates = fmupd day_2024_01_01 (9 / 10) fmempty,
      CTR_Predictions = fmempty, CTR_StartDate = day_2024_01_01, CTR_EndDate = day_2024_01_01\<rparr>"

definition redis_filled :: redis where
  \<comment> \<open>A server that holds an entry for USD and one for USD:EUR, and no availability list.\<close>
  "redis_filled =
     \<lparr>strings = Map.empty,
      hashes = (\<lambda>k. if k = ''rate:collection'' then [''USD'' \<mapsto> ''old'']
                    else if k = ''time:collection'' then [''USD:EUR'' \<mapsto> ''old'']
                    else Map.empty),
      fault = None\<rparr>"

definition redis_null_available :: redis where
  \<comment> \<open>A server that holds the payload \<^verbatim>\<open>null\<close> under the availability key.\<close>
  "redis_null_available =
     \<lparr>strings = [''available'' \<mapsto> ''null''], hashes = (\<lambda>k. Map.empty), fault = None\<rparr>"

section \<open>The query orchestrator (\<^verbatim>\<open>HttpService\<close>)\<close>

text \<open>
  A handler answers one request. Its collaborators are the \<^verbatim>\<open>cache.Cache\<close> interface,
  the database handle, the HTTP client towards the rate provider and the forecast
  service, and the clock. Each of them is called at most once per request and operation,
  so each is given by the answer it has for the request at hand (\<open>deps\<close>), and the
  handler returns, next to its response, the calls it made in order and the lines it
  logged. \<^verbatim>\<open>time.Now()\<close> is read as one instant per request.

  The registry \<^verbatim>\<open>currency_helpers.CodeToCurrency\<close> is a Go map declared outside the
  files at hand: it is the association list \<open>CodeToCurrency\<close>, whose order stands for the
  (unspecified) order in which \<^verbatim>\<open>range\<close> visits the map.
\<close>

datatype body =
    Text string
  | Available "CurrencyWithBanStatus list"
  | Rate CurrencyRate
  | Timeline CurrencyTimelineRate
  | Empty

datatype response =
    Response nat body
  | Panic

datatype call =
    Cache_GetAvailableCurrencies
  | Cache_SetAvailableCurrencies "CurrencyWithBanStatus list"
  | Cache_CleanCacheForAvailableCurrencies
  | Cache_GetCurrencyLastRate CurrencyCode CurrencyCode
  | Cache_SetCurrencyLastRate CurrencyRates
  | Cache_GetTimestampRate CurrencyCode CurrencyCode
  | Cache_SaveTimestampRate CurrencyTimelineRate
  | DB_Select "CurrencyCode list"
  | DB_Exec CurrencyCode bool
  | Exchanger_Latest Time CurrencyCode
  | Exchanger_Timeseries Time Time CurrencyCode CurrencyCode
  | Predictor_Predict "(Time, real) fmap"

record CurrencyRatesResponse =
  CRR_Success :: bool
  CRR_CurrencyRates :: "CurrencyRates option"

record CurrencyTimelineRatesResponse =
  CTRR_Success :: bool
  CTRR_CurrencyTimelineRates :: "CurrencyTimelineRates option"

datatype 'a fetched =
    RequestError error
  | DoError error
  | BodyError error
  | Body 'a

datatype predicted =
    MarshalError error
  | PredictDoError error
  | PredictBodyError error
  | Predicted "real list"

record deps =
  CodeToCurrency :: "(CurrencyCode \<times> Currency) list"
  Now :: Time
  cache_GetAvailableCurrencies :: "error + CurrencyWithBanStatus list option"
  cache_SetAvailableCurrencies :: "CurrencyWithBanStatus list \<Rightarrow> error option"
  cache_CleanCacheForAvailableCurrencies :: "error option"
  cache_GetCurrencyLastRate :: "CurrencyCode \<Rightarrow> CurrencyCode \<Rightarrow> error + CurrencyRate option"
  cache_SetCurrencyLastRate :: "CurrencyRates \<Rightarrow> error option"
  cache_GetTimestampRate :: "CurrencyCode \<Rightarrow> CurrencyCode \<Rightarrow> error + CurrencyTimelineRate option"
  cache_SaveTimestampRate :: "CurrencyTimelineRate \<Rightarrow> error option"
  db_Select :: "CurrencyCode list \<Rightarrow> error + CurrencyWithBanStatus list"
  db_Exec :: "CurrencyCode \<Rightarrow> bool \<Rightarrow> error option"
  exchanger_latest :: "Time \<Rightarrow> CurrencyCode \<Rightarrow> CurrencyRatesResponse fetched"
  exchanger_timeseries ::
    "Time \<Rightarrow> Time \<Rightarrow> CurrencyCode \<Rightarrow> CurrencyCode \<Rightarrow> CurrencyTimelineRatesResponse fetched"
  predictor :: "(Time, real) fmap \<Rightarrow> predicted"
  json_Encode :: "body \<Rightarrow> error option"

record outcome =
  resp :: response
  calls :: "call list"
  logged :: "string list"

definition httpError :: "string \<Rightarrow> nat \<Rightarrow> call list \<Rightarrow> string list \<Rightarrow> outcome" where
  \<comment> \<open>\<^verbatim>\<open>http.Error(w, msg, code); return\<close>\<close>
  "httpError msg code cs lg = \<lparr>resp = Response code (Text msg), calls = cs, logged = lg\<rparr>"

definition writeJSON :: "deps \<Rightarrow> body \<Rightarrow> string \<Rightarrow> call list \<Rightarrow> string list \<Rightarrow> outcome" where
  \<comment> \<open>\<^verbatim>\<open>json.NewEncoder(w).Encode(v)\<close>, with the 500 of a failed encoding.\<close>
  "writeJSON s v msg cs lg =
     (case json_Encode s v of
        Some err \<Rightarrow> httpError (Wrap err msg) 500 cs lg
      | None \<Rightarrow> \<lparr>resp = Response 200 v, calls = cs, logged = lg\<rparr>)"

definition logIf :: "string \<Rightarrow> error option \<Rightarrow> string list" where
  \<comment> \<open>\<^verbatim>\<open>if err != nil { log.Printf(prefix + ": %s", err.Error()) }\<close>\<close>
  "logIf prefix err = (case err of Some e \<Rightarrow> [prefix @ '': '' @ e] | None \<Rightarrow> [])"

definition inRegistry :: "deps \<Rightarrow> CurrencyCode \<Rightarrow> bool" where
  \<comment> \<open>\<^verbatim>\<open>_, ok := currency_helpers.CodeToCurrency[code]\<close>\<close>
  "inRegistry s code = (map_of (CodeToCurrency s) code \<noteq> None)"

subsection \<open>\<^verbatim>\<open>sort.SliceStable\<close>\<close>

text \<open>
  The library's stable sort is an insertion sort (on blocks, which it then merges): each
  element moves left past every neighbour it is less than. \<open>bubble\<close> takes the sorted
  prefix in reverse, so that its head is the element's left neighbour.
\<close>

fun bubble :: "('a \<Rightarrow> 'a \<Rightarrow> bool) \<Rightarrow> 'a \<Rightarrow> 'a list \<Rightarrow> 'a list" where
  "bubble lt x [] = [x]"
| "bubble lt x (y # ys) = (if lt x y then y # bubble lt x ys else x # y # ys)"

definition SliceStable :: "('a \<Rightarrow> 'a \<Rightarrow> bool) \<Rightarrow> 'a list \<Rightarrow> 'a list" where
  "SliceStable lt xs = rev (foldl (\<lambda>pre x. bubble lt x pre) [] xs)"

subsection \<open>Availability and ban mutation\<close>

definition sqlx_In :: "CurrencyCode list \<Rightarrow> error + unit" where
  \<comment> \<open>\<^verbatim>\<open>sqlx.In\<close> refuses an empty slice.\<close>
  "sqlx_In currencies = (if currencies = [] then Inl ''empty slice passed to in query'' else Inr ())"

definition banLess :: "CurrencyWithBanStatus \<Rightarrow> CurrencyWithBanStatus \<Rightarrow> bool" where
  \<comment> \<open>The \<^verbatim>\<open>less\<close> function handed to \<^verbatim>\<open>sort.SliceStable\<close>.\<close>
  "banLess si sj = (if Banned si \<noteq> Banned sj then Banned si else Currency si \<le> Currency sj)"

definition banMap ::
  "CurrencyWithBanStatus list \<Rightarrow> (CurrencyCode \<rightharpoonup> CurrencyWithBanStatus)" where
  \<comment> \<open>\<^verbatim>\<open>for _, curr := range curr2ban { cur2banMap[curr.Currency] = curr }\<close>\<close>
  "banMap curr2ban = foldl (\<lambda>m curr. m(Currency curr \<mapsto> curr)) Map.empty curr2ban"

definition banStatuses :: "deps \<Rightarrow> CurrencyWithBanStatus list \<Rightarrow> CurrencyWithBanStatus list" where
  \<comment> \<open>The result list of the handler, from the rows of the ban store.\<close>
  "banStatuses s curr2ban =
     (let cur2banMap = banMap curr2ban;
          result = map (\<lambda>(curr, _). case cur2banMap curr of
                                       Some v \<Rightarrow> v
                                     | None \<Rightarrow> \<lparr>Currency = curr, Banned = False\<rparr>)
                       (CodeToCurrency s)
      in SliceStable banLess result)"

definition GetAvailableCurrencies :: "deps \<Rightarrow> outcome" where
  "GetAvailableCurrencies s =
     (let currencies = map fst (CodeToCurrency s);
          c1 = [Cache_GetAvailableCurrencies]
      in case cache_GetAvailableCurrencies s of
           Inl err \<Rightarrow> httpError (Wrap err ''error in get available currencies'') 500 c1 []
         | Inr (Some availableCurrencies) \<Rightarrow>
             writeJSON s (Available availableCurrencies) ''error in marshalling currencies'' c1 []
         | Inr None \<Rightarrow>
             (case sqlx_In currencies of
                Inl err \<Rightarrow> httpError (Wrap err ''error in prepare query'') 500 c1 []
              | Inr _ \<Rightarrow>
                  (let c2 = c1 @ [DB_Select currencies]
                   in case db_Select s currencies of
                        Inl err \<Rightarrow>
                          httpError (Wrap err ''error in getting currency to ban data'') 500 c2 []
                      | Inr curr2ban \<Rightarrow>
                          (let result = banStatuses s curr2ban;
                               c3 = c2 @ [Cache_SetAvailableCurrencies result];
                               lg = logIf ''error in save available currencies''
                                      (cache_SetAvailableCurrencies s result)
                           in writeJSON s (Available result)
                                ''error in marshalling currencies'' c3 lg))))"

definition ChangeCurrencyBanStatus :: "deps \<Rightarrow> error + CurrencyCode \<times> bool \<Rightarrow> outcome" where
  \<comment> \<open>The second argument is the decoded request body, or the decoder's error.\<close>
  "ChangeCurrencyBanStatus s req =
     (case req of
        Inl err \<Rightarrow> httpError (Wrap err ''error in unmarshalling request'') 400 [] []
      | Inr (currency, banned) \<Rightarrow>
          if \<not> inRegistry s currency then httpError ''invalid currency'' 400 [] []
          else (let c1 = [DB_Exec currency banned]
                in case db_Exec s currency banned of
                     Some err \<Rightarrow> httpError (Wrap err ''error in update currency status'') 500 c1 []
                   | None \<Rightarrow>
                       \<lparr>resp = Response 200 Empty,
                        calls = c1 @ [Cache_CleanCacheForAvailableCurrencies],
                        logged = logIf ''error in clean available currencies''
                                   (cache_CleanCacheForAvailableCurrencies s)\<rparr>))"

subsection \<open>Current rate\<close>

definition cachedIsCurrent :: "Time \<Rightarrow> Time \<Rightarrow> bool" where
  \<comment> \<open>The test on \<^verbatim>\<open>currencyRate.Date.Date()\<close> against \<^verbatim>\<open>time.Now().Date()\<close>.\<close>
  "cachedIsCurrent r n =
     (year r < year n \<or>
      year r = year n \<and> month r < month n \<or>
      year r = year n \<and> month r = month n \<and> day r = day n)"

definition fetchCurrentRate :: "deps \<Rightarrow> CurrencyCode \<Rightarrow> CurrencyCode \<Rightarrow> call list \<Rightarrow> outcome" where
  \<comment> \<open>The handler from the request to the provider on.\<close>
  "fetchCurrentRate s currencyCodeBase currencyCodeSecond c1 =
     (let previousDay = time_Date (year (Now s)) (month (Now s)) (int (day (Now s)) - 1);
          c2 = c1 @ [Exchanger_Latest previousDay currencyCodeBase]
      in case exchanger_latest s previousDay currencyCodeBase of
           RequestError err \<Rightarrow> httpError (Wrap err ''error in prepare request'') 500 c1 []
         | DoError err \<Rightarrow> httpError (Wrap err ''error in get new data'') 500 c2 []
         | BodyError err \<Rightarrow> httpError (Wrap err ''internal error in read JSON data'') 500 c2 []
         | Body updatedCurrencyRates \<Rightarrow>
             if \<not> CRR_Success updatedCurrencyRates
             then httpError ''unsuccessful getting new rates'' 500 c2 []
             else (case CRR_CurrencyRates updatedCurrencyRates of
                     None \<Rightarrow> \<lparr>resp = Panic, calls = c2, logged = []\<rparr>
                   | Some rates \<Rightarrow>
                       if fmlookup (CRs_Rates rates) currencyCodeSecond = None
                       then httpError (''cannot find rate for '' @ currencyCodeSecond) 400 c2 []
                       else (let c3 = c2 @ [Cache_SetCurrencyLastRate rates];
                                 lg = logIf ''error in save new rate''
                                        (cache_SetCurrencyLastRate s rates);
                                 v = Rate (ToResultRate rates currencyCodeSecond)
                             in case json_Encode s v of
                                  Some err \<Rightarrow> httpError ''marshal result error'' 400 c3 lg
                                | None \<Rightarrow> \<lparr>resp = Response 200 v, calls = c3, logged = lg\<rparr>)))"

definition GetCurrentCurrencyRate :: "deps \<Rightarrow> string \<Rightarrow> string \<Rightarrow> outcome" where
  \<comment> \<open>The arguments are the query parameters \<^verbatim>\<open>base\<close> and \<^verbatim>\<open>second\<close>.\<close>
  "GetCurrentCurrencyRate s currencyCodeBase currencyCodeSecond =
     (if \<not> inRegistry s currencyCodeBase then httpError ''invalid base currency code'' 400 [] []
      else if \<not> inRegistry s currencyCodeSecond
      then httpError ''invalid second currency code'' 400 [] []
      else (let c1 = [Cache_GetCurrencyLastRate currencyCodeBase currencyCodeSecond]
            in case cache_GetCurrencyLastRate s currencyCodeBase currencyCodeSecond of
                 Inl err \<Rightarrow> httpError (Wrap err ''error in get currency rate'') 500 c1 []
               | Inr None \<Rightarrow> fetchCurrentRate s currencyCodeBase currencyCodeSecond c1
               | Inr (Some currencyRate) \<Rightarrow>
                   if cachedIsCurrent (CR_Date currencyRate) (Now s)
                   then writeJSON s (Rate currencyRate) ''error in marshalling result'' c1 []
                   else fetchCurrentRate s currencyCodeBase currencyCodeSecond c1))"

subsection \<open>Timeline\<close>

fun mkPredictions ::
  "int \<Rightarrow> nat \<Rightarrow> nat \<Rightarrow> nat \<Rightarrow> real list \<Rightarrow> (Time, real) fmap \<Rightarrow> (Time, real) fmap" where
  \<comment> \<open>The loop over \<^verbatim>\<open>predictedRates\<close>, with its counter \<open>i\<close> and the map built so far.\<close>
  "mkPredictions todayY todayM todayD i [] predictions = predictions"
| "mkPredictions todayY todayM todayD i (rate # rest) predictions =
     mkPredictions todayY todayM todayD (i + 1) rest
       (fmupd (time_Date todayY todayM (int todayD + int i)) rate predictions)"

definition inPeriod :: "Time \<Rightarrow> Time \<Rightarrow> Time \<Rightarrow> bool" where
  \<comment> \<open>\<^verbatim>\<open>t.Equal(startDate) || t.After(startDate) && t.Before(endDate)\<close>\<close>
  "inPeriod startDate endDate t = (Equal t startDate \<or> After t startDate \<and> Before t endDate)"

definition timelineResult :: "CurrencyTimelineRate \<Rightarrow> Time \<Rightarrow> Time \<Rightarrow> CurrencyTimelineRate" where
  \<comment> \<open>The response's value: the loop keeps the rates of the period.\<close>
  "timelineResult currencyRate startDate endDate =
     \<lparr>CTR_Base = CTR_Base currencyRate,
      CTR_Second = CTR_Second currencyRate,
      CTR_Rates = fmfilter (inPeriod startDate endDate) (CTR_Rates currencyRate),
      CTR_Predictions = CTR_Predictions currencyRate,
      CTR_StartDate = startDate,
      CTR_EndDate = endDate\<rparr>"

definition respondTimeline ::
  "deps \<Rightarrow> CurrencyTimelineRate \<Rightarrow> Time \<Rightarrow> Time \<Rightarrow> call list \<Rightarrow> string list \<Rightarrow> outcome" where
  "respondTimeline s currencyRate startDate endDate cs lg =
     writeJSON s (Timeline (timelineResult currencyRate startDate endDate))
       ''error in prepare response date'' cs lg"

definition seedTimeline ::
  "deps \<Rightarrow> CurrencyCode \<Rightarrow> CurrencyCode \<Rightarrow> Time \<Rightarrow> Time \<Rightarrow> call list \<Rightarrow> outcome" where
  \<comment> \<open>The branch of a cache miss: one year of rates up to yesterday, the forecast, the
      write to the cache, and then the response.\<close>
  "seedTimeline s currencyCodeBase currencyCodeSecond startDate endDate c1 =
     (let todayY = year (Now s); todayM = month (Now s); todayD = day (Now s);
          previousDay = time_Date todayY todayM (int todayD - 1);
          previousYear = time_Date (todayY - 1) todayM (int todayD);
          c2 = c1 @ [Exchanger_Timeseries previousYear previousDay currencyCodeBase currencyCodeSecond]
      in case exchanger_timeseries s previousYear previousDay currencyCodeBase currencyCodeSecond of
           RequestError err \<Rightarrow> httpError (Wrap err ''error in prepare request'') 500 c1 []
         | DoError err \<Rightarrow> httpError (Wrap err ''error in get new data'') 500 c2 []
         | BodyError err \<Rightarrow> httpError (Wrap err ''internal error in read JSON data'') 500 c2 []
         | Body timelineCurrencyRates \<Rightarrow>
             if \<not> CTRR_Success timelineCurrencyRates
             then httpError ''unsuccessful getting new rates'' 500 c2 []
             else (case CTRR_CurrencyTimelineRates timelineCurrencyRates of
                     None \<Rightarrow> \<lparr>resp = Panic, calls = c2, logged = []\<rparr>
                   | Some rates \<Rightarrow>
                       (let currencyRate = ToResultTimelineRates rates currencyCodeSecond;
                            c3 = c2 @ [Predictor_Predict (CTR_Rates currencyRate)]
                        in case predictor s (CTR_Rates currencyRate) of
                             MarshalError err \<Rightarrow>
                               httpError (Wrap err ''error in prepare data for predictions'') 500 c2 []
                           | PredictDoError err \<Rightarrow>
                               httpError (Wrap err ''error in get predictions'') 500 c3 []
                           | PredictBodyError err \<Rightarrow>
                               httpError (Wrap err ''error in reading predictor response'') 500 c3 []
                           | Predicted predictedRates \<Rightarrow>
                               (let predictions =
                                      mkPredictions todayY todayM todayD 0 predictedRates fmempty;
                                    currencyRate' = currencyRate\<lparr>CTR_Predictions := predictions\<rparr>;
                                    c4 = c3 @ [Cache_SaveTimestampRate currencyRate'];
                                    lg = logIf ''error in save timestamp rate''
                                           (cache_SaveTimestampRate s currencyRate')
                                in respondTimeline s currencyRate' startDate endDate c4 lg))))"

definition GetTimelineCurrencyRate :: "deps \<Rightarrow> string \<Rightarrow> string \<Rightarrow> string \<Rightarrow> string \<Rightarrow> outcome" where
  \<comment> \<open>The arguments are the query parameters \<^verbatim>\<open>base\<close>, \<^verbatim>\<open>second\<close>, \<^verbatim>\<open>start\<close> and
      \<^verbatim>\<open>end\<close>.\<close>
  "GetTimelineCurrencyRate s currencyCodeBase currencyCodeSecond startDateStr endDateStr =
     (if \<not> inRegistry s currencyCodeBase then httpError ''invalid base currency code'' 400 [] []
      else if \<not> inRegistry s currencyCodeSecond
      then httpError ''invalid second currency code'' 400 [] []
      else (case Parse startDateStr of
              None \<Rightarrow> httpError ''invalid start period date'' 400 [] []
            | Some startDate \<Rightarrow>
                (case Parse endDateStr of
                   None \<Rightarrow> httpError ''invalid end period date'' 400 [] []
                 | Some endDate \<Rightarrow>
                     (let c1 = [Cache_GetTimestampRate currencyCodeBase currencyCodeSecond]
                      in case cache_GetTimestampRate s currencyCodeBase currencyCodeSecond of
                           Inl err \<Rightarrow>
                             httpError (Wrap err ''error in get timestamp rate from cache'') 500 c1 []
                         | Inr None \<Rightarrow>
                             seedTimeline s currencyCodeBase currencyCodeSecond startDate endDate c1
                         | Inr (Some currencyRate) \<Rightarrow>
                             respondTimeline s currencyRate startDate endDate c1 []))))"

definition GetTimelineCurrencyRate_direct ::
  "deps \<Rightarrow> string \<Rightarrow> string \<Rightarrow> string \<Rightarrow> string \<Rightarrow> outcome" where
  \<comment> \<open>The handler of package \<^verbatim>\<open>http_service\<close>, which asks the provider for the
      requested period and keeps no timeline in the cache.\<close>
  "GetTimelineCurrencyRate_direct s currencyCodeBase currencyCodeSecond startDateStr endDateStr =
     (if \<not> inRegistry s currencyCodeBase then httpError ''invalid base currency code'' 400 [] []
      else if \<not> inRegistry s currencyCodeSecond
      then httpError ''invalid second currency code'' 400 [] []
      else (case Parse startDateStr of
              None \<Rightarrow> httpError ''invalid start period date'' 400 [] []
            | Some startDate \<Rightarrow>
                (case Parse endDateStr of
                   None \<Rightarrow> httpError ''invalid end period date'' 400 [] []
                 | Some endDate \<Rightarrow>
                     (let c1 = [Exchanger_Timeseries startDate endDate currencyCodeBase
                                  currencyCodeSecond]
                      in case exchanger_timeseries s startDate endDate currencyCodeBase
                                currencyCodeSecond of
                           RequestError err \<Rightarrow>
                             httpError (Wrap err ''error in prepare request'') 500 [] []
                         | DoError err \<Rightarrow> httpError (Wrap err ''error in get new data'') 500 c1 []
                         | BodyError err \<Rightarrow>
                             httpError (Wrap err ''internal error in read JSON data'') 500 c1 []
                         | Body timelineCurrencyRates \<Rightarrow>
                             if \<not> CTRR_Success timelineCurrencyRates
                             then httpError ''unsuccessful getting new rates'' 500 c1 []
                             else (case CTRR_CurrencyTimelineRates timelineCurrencyRates of
                                     None \<Rightarrow> \<lparr>resp = Panic, calls = c1, logged = []\<rparr>
                                   | Some rates \<Rightarrow>
                                       writeJSON s
                                         (Timeline (ToResultTimelineRates rates currencyCodeSecond))
                                         ''error in prepare response date'' c1 [])))))"

subsection \<open>The order of the availability list\<close>

definition banBefore :: "CurrencyWithBanStatus \<Rightarrow> CurrencyWithBanStatus \<Rightarrow> bool" where
  \<comment> \<open>Banned entries come before the others; within a group the codes ascend.\<close>
  "banBefore a b = (Banned a \<and> \<not> Banned b \<or> Banned a = Banned b \<and> Currency a < Currency b)"

subsection \<open>Example collaborators\<close>

definition day_2024_01_02 :: Time where
  "day_2024_01_02 = \<lparr>year = 2024, month = 1, day = 2, nanos = 0, zone = 0\<rparr>"

definition deps0 :: deps where
  \<comment> \<open>Three currencies, an empty cache, a ban store with a row for each currency, a
      provider that knows USD to EUR, and collaborators that never fail. It is noon on
      2024-01-02.\<close>
  "deps0 =
     \<lparr>CodeToCurrency = [(''USD'', 840), (''EUR'', 978), (''GBP'', 826)],
      Now = \<lparr>year = 2024, month = 1, day = 2, nanos = 43200000000000, zone = 0\<rparr>,
      cache_GetAvailableCurrencies = Inr None,
      cache_SetAvailableCurrencies = (\<lambda>xs. None),
      cache_CleanCacheForAvailableCurrencies = None,
      cache_GetCurrencyLastRate = (\<lambda>b c. Inr None),
      cache_SetCurrencyLastRate = (\<lambda>cr. None),
      cache_GetTimestampRate = (\<lambda>b c. Inr None),
      cache_SaveTimestampRate = (\<lambda>tl. None),
      db_Select = (\<lambda>cs. Inr [\<lparr>Currency = ''USD'', Banned = False\<rparr>,
                              \<lparr>Currency = ''EUR'', Banned = True\<rparr>,
                              \<lparr>Currency = ''GBP'', Banned = True\<rparr>]),
      db_Exec = (\<lambda>c b. None),
      exchanger_latest = (\<lambda>t b. Body \<lparr>CRR_Success = True, CRR_CurrencyRates = Some usd_rates\<rparr>),
      exchanger_timeseries =
        (\<lambda>t u b c. Body \<lparr>CTRR_Success = True, CTRR_CurrencyTimelineRates = None\<rparr>),
      predictor = (\<lambda>rates. Predicted []),
      json_Encode = (\<lambda>v. None)\<rparr>"

definition banEntry ::
  "CurrencyWithBanStatus list \<Rightarrow> CurrencyCode \<times> Currency \<Rightarrow> CurrencyWithBanStatus" where
  \<comment> \<open>The entry that the loop over the registry appends for one key.\<close>
  "banEntry rows = (\<lambda>(curr, _). case banMap rows curr of
                                       Some v \<Rightarrow> v
                                     | None \<Rightarrow> \<lparr>Currency = curr, Banned = False\<rparr>)"

section \<open>Properties of the calendar\<close>

lemma daysBefore_values:
  "daysBefore 0 = 0" "daysBefore 1 = 31" "daysBefore 2 = 59" "daysBefore 3 = 90"
  "daysBefore 4 = 120" "daysBefore 5 = 151" "daysBefore 6 = 181" "daysBefore 7 = 212"
  "daysBefore 8 = 243" "daysBefore 9 = 273" "daysBefore 10 = 304" "daysBefore 11 = 334"
  "daysBefore 12 = 365"
  by (simp_all add: daysBefore_def)

section \<open>The codec round trip\<close>

lemma digitChar_isDigit: "n < 10 \<Longrightarrow> isDigit (digitChar n)"
  unfolding isDigit_def digitChar_def less_eq_char_def
  by simp

lemma digitChar_val: "n < 10 \<Longrightarrow> digitVal (digitChar n) = n"
  unfolding digitChar_def digitVal_def
  by simp

lemma digitChar_quote: "n < 10 \<Longrightarrow> digitChar n \<noteq> CHR 0x22"
proof
  assume a: "n < 10" "digitChar n = CHR 0x22"
  then have "of_char (digitChar n) = (of_char (CHR 0x22) :: nat)" by simp
  with a(1) show False unfolding digitChar_def by simp
qed

lemma natDigits_1: "n < 10 \<Longrightarrow> natDigits n = [digitChar n]"
  by (subst natDigits.simps) simp

lemma natDigits_2: "10 \<le> n \<Longrightarrow> n < 100 \<Longrightarrow> natDigits n = [digitChar (n div 10), digitChar (n mod 10)]"
  by (subst natDigits.simps) (simp add: natDigits_1)

lemma natDigits_3: "100 \<le> n \<Longrightarrow> n < 1000 \<Longrightarrow>
   natDigits n = [digitChar (n div 100), digitChar (n div 10 mod 10), digitChar (n mod 10)]"
  by (subst natDigits.simps) (simp add: natDigits_2 div_mult2_eq[symmetric])

lemma natDigits_4: "1000 \<le> n \<Longrightarrow> n < 10000 \<Longrightarrow>
   natDigits n = [digitChar (n div 1000), digitChar (n div 100 mod 10), digitChar (n div 10 mod 10), digitChar (n mod 10)]"
  by (subst natDigits.simps) (simp add: natDigits_3 div_mult2_eq[symmetric])

lemma digitChar_0: "digitChar 0 = CHR ''0''"
  unfolding digitChar_def by code_simp

lemma replicate_small: "replicate 3 x = [x, x, x]" "replicate 2 x = [x, x]" "replicate (Suc 0) x = [x]"
  by (simp_all add: numeral_3_eq_3 numeral_2_eq_2)

lemma appendInt_2: "n < 100 \<Longrightarrow> appendInt (int n) 2 = [digitChar (n div 10), digitChar (n mod 10)]"
  by (cases "n < 10") (simp_all add: appendInt_def natDigits_1 natDigits_2 replicate_small digitChar_0)

lemma appendInt_4: 
  assumes a: "n < 10000"
  shows "appendInt (int n) 4 =
   [digitChar (n div 1000), digitChar (n div 100 mod 10), digitChar (n div 10 mod 10), digitChar (n mod 10)]"
proof -
  consider "n < 10" | "10 \<le> n" "n < 100" | "100 \<le> n" "n < 1000" | "1000 \<le> n"
    by linarith
  then show ?thesis
  proof cases
    case 1 then show ?thesis by (simp add: appendInt_def natDigits_1 replicate_small digitChar_0)
  next
    case 2 then show ?thesis by (simp add: appendInt_def natDigits_2 replicate_small digitChar_0)
  next
    case 3 then show ?thesis by (simp add: appendInt_def natDigits_3 replicate_small digitChar_0)
  next
    case 4 with a show ?thesis by (simp add: appendInt_def natDigits_4)
  qed
qed

lemma digits4_sum:
  "1000 * (n div 1000) + 100 * (n div 100 mod 10) + 10 * (n div 10 mod 10) + n mod 10 = (n::nat)"
proof -
  define a where "a = n div 10"
  define b where "b = a div 10"
  define c where "c = b div 10"
  have e1: "n div 100 = b" unfolding b_def a_def by (simp add: div_mult2_eq[symmetric])
  have e2: "n div 1000 = c" unfolding c_def b_def a_def by (simp add: div_mult2_eq[symmetric])
  have n: "n = 10 * a + n mod 10" unfolding a_def by simp
  have a: "a = 10 * b + a mod 10" unfolding b_def by simp
  have b: "b = 10 * c + b mod 10" unfolding c_def by simp
  have "1000 * c + 100 * (b mod 10) + 10 * (a mod 10) + n mod 10 = n"
    using n a b by linarith
  then show ?thesis unfolding e1 e2 a_def[symmetric] .
qed

lemma month_cases:
  assumes "1 \<le> m" "m \<le> 12"
  obtains "m = 1" | "m = 2" | "m = 3" | "m = 4" | "m = 5" | "m = 6" | "m = 7" | "m = 8"
    | "m = 9" | "m = 10" | "m = 11" | "m = (12::nat)"
proof -
  from assms have "m = 1 \<or> m = 2 \<or> m = 3 \<or> m = 4 \<or> m = 5 \<or> m = 6 \<or> m = 7 \<or> m = 8
    \<or> m = 9 \<or> m = 10 \<or> m = 11 \<or> m = 12"
    by presburger
  then show thesis using that by blast
qed

lemma daysIn_le: "1 \<le> m \<Longrightarrow> m \<le> 12 \<Longrightarrow> daysIn m y \<le> 31"
  by (erule (1) month_cases) (simp_all add: daysIn_def daysBefore_values daysBefore_def)


lemma Parse_Format:
  assumes v: "validDate (int y) m d" and y: "y < 10000"
  shows "Parse (Format \<lparr>year = int y, month = m, day = d, nanos = 0, zone = 0\<rparr>)
           = Some \<lparr>year = int y, month = m, day = d, nanos = 0, zone = 0\<rparr>"
proof -
  from v have m12: "1 \<le> m" "m \<le> 12" and d1: "1 \<le> d" "d \<le> daysIn m (int y)"
    by (simp_all add: validDate_def)
  from m12 have m: "m < 100" by simp
  have "daysIn m (int y) \<le> 31"
    using m12 by (rule daysIn_le)
  with d1 have d: "d < 100" by simp
  have dg: "y div 1000 < 10" "y div 100 mod 10 < 10" "y div 10 mod 10 < 10" "y mod 10 < 10"
     "m div 10 < 10" "m mod 10 < 10" "d div 10 < 10" "d mod 10 < 10"
    using y m d by simp_all
  have ys: "1000 * (y div 1000) + 100 * (y div 100 mod 10) + 10 * (y div 10 mod 10) + y mod 10 = y"
    by (rule digits4_sum)
  have ms: "10 * (m div 10) + m mod 10 = m" and ds: "10 * (d div 10) + d mod 10 = d"
    by simp_all
  show ?thesis
    unfolding Format_def
    apply (simp only: Time.simps appendInt_4[OF y] appendInt_2[OF m] appendInt_2[OF d] append.simps)
    apply (simp only: Parse.simps dg digitChar_isDigit digitChar_val ys ms ds Let_def)
    using v apply simp
    done
qed


lemma isDigit_val: "isDigit c \<Longrightarrow> digitVal c < 10" "isDigit c \<Longrightarrow> digitChar (digitVal c) = c"
proof -
  assume "isDigit c"
  then have b: "48 \<le> (of_char c :: nat)" "(of_char c :: nat) \<le> 57"
    unfolding isDigit_def less_eq_char_def by simp_all
  then show "digitVal c < 10" unfolding digitVal_def by linarith
  from b have "48 + (of_char c - 48) = (of_char c :: nat)" by linarith
  then show "digitChar (digitVal c) = c" unfolding digitVal_def digitChar_def by simp
qed

lemma divmod10:
  fixes d k :: nat
  shows "d < 10 \<Longrightarrow> (10 * k + d) mod 10 = d" "d < 10 \<Longrightarrow> (10 * k + d) div 10 = k"
  by simp_all

lemma digits4_of:
  fixes a b c d :: nat
  assumes "a < 10" "b < 10" "c < 10" "d < 10"
  defines "n \<equiv> 1000 * a + 100 * b + 10 * c + d"
  shows "n div 1000 = a" "n div 100 mod 10 = b" "n div 10 mod 10 = c" "n mod 10 = d" "n < 10000"
proof -
  have n10: "n = 10 * (100 * a + 10 * b + c) + d" unfolding n_def by simp
  show m1: "n mod 10 = d" unfolding n10 by (rule divmod10(1)[OF assms(4)])
  have d10: "n div 10 = 100 * a + 10 * b + c" unfolding n10 by (rule divmod10(2)[OF assms(4)])
  have d10': "n div 10 = 10 * (10 * a + b) + c" unfolding d10 by simp
  show "n div 10 mod 10 = c" unfolding d10' by (rule divmod10(1)[OF assms(3)])
  have "n div 100 = n div 10 div 10" by (simp add: div_mult2_eq[symmetric])
  also have "\<dots> = 10 * a + b" unfolding d10' by (rule divmod10(2)[OF assms(3)])
  finally have d100: "n div 100 = 10 * a + b" .
  show "n div 100 mod 10 = b" unfolding d100 by (rule divmod10(1)[OF assms(2)])
  have "n div 1000 = n div 100 div 10" by (simp add: div_mult2_eq[symmetric])
  also have "\<dots> = a" unfolding d100 by (rule divmod10(2)[OF assms(2)])
  finally show "n div 1000 = a" .
  from assms(1-4) show "n < 10000" unfolding n_def by linarith
qed

lemma digits2_of:
  fixes a b :: nat
  assumes "a < 10" "b < 10"
  shows "(10 * a + b) div 10 = a" "(10 * a + b) mod 10 = b" "10 * a + b < 100"
  using assms by simp_all

lemma Parse_SomeD:
  assumes "Parse s = Some t"
  shows "\<exists>y m d. y < 10000 \<and> validDate (int y) m d
           \<and> t = \<lparr>year = int y, month = m, day = d, nanos = 0, zone = 0\<rparr> \<and> s = Format t"
  using assms
proof (cases s rule: Parse.cases)
  case (1 y1 y2 y3 y4 s1 m1 m2 s2 d1 d2)
  define y where "y = 1000 * digitVal y1 + 100 * digitVal y2 + 10 * digitVal y3 + digitVal y4"
  define m where "m = 10 * digitVal m1 + digitVal m2"
  define d where "d = 10 * digitVal d1 + digitVal d2"
  from assms 1 have dg: "isDigit y1" "isDigit y2" "isDigit y3" "isDigit y4" "isDigit m1" "isDigit m2"
      "isDigit d1" "isDigit d2" and sep: "s1 = CHR ''-''" "s2 = CHR ''-''"
    by (auto split: if_splits)
  with assms 1 have v: "validDate (int y) m d"
    and t: "t = \<lparr>year = int y, month = m, day = d, nanos = 0, zone = 0\<rparr>"
    unfolding y_def m_def d_def by (auto simp: Let_def split: if_splits)
  note yd = digits4_of[OF isDigit_val(1)[OF dg(1)] isDigit_val(1)[OF dg(2)]
      isDigit_val(1)[OF dg(3)] isDigit_val(1)[OF dg(4)], folded y_def]
  note md = digits2_of[OF isDigit_val(1)[OF dg(5)] isDigit_val(1)[OF dg(6)], folded m_def]
  note dd = digits2_of[OF isDigit_val(1)[OF dg(7)] isDigit_val(1)[OF dg(8)], folded d_def]
  have "Format t = s"
    unfolding Format_def t 1
    by (simp only: Time.simps appendInt_4[OF yd(5)] appendInt_2[OF md(3)] appendInt_2[OF dd(3)]
        yd md dd isDigit_val(2) dg sep append.simps)
  with v t yd(5) show ?thesis by blast
qed (simp_all)


lemma leap_count_nonneg: "0 \<le> (k::int) \<Longrightarrow> 0 \<le> k div 4 - k div 100 + k div 400"
proof -
  assume k: "0 \<le> k"
  have "k div 100 \<le> k div 4" using k by (intro zdiv_mono2) simp_all
  moreover have "0 \<le> k div 400" using k by (simp add: pos_imp_zdiv_nonneg_iff)
  ultimately show ?thesis by linarith
qed

lemma daysBefore_pred_le: "1 \<le> m \<Longrightarrow> m \<le> 12 \<Longrightarrow> daysBefore (m - 1) \<le> 334"
  by (erule (1) month_cases) (simp_all add: daysBefore_values daysBefore_def)

lemma daysBefore_pred_ge: "2 \<le> m \<Longrightarrow> m \<le> 12 \<Longrightarrow> 31 \<le> daysBefore (m - 1)"
proof -
  assume a: "2 \<le> m" "m \<le> 12"
  then have b: "1 \<le> m" by simp
  show ?thesis
    by (rule month_cases[OF b a(2)]) (use a in \<open>simp_all add: daysBefore_values daysBefore_def\<close>)
qed

lemma daysSinceYear1_year0: "1 \<le> m \<Longrightarrow> m \<le> 12 \<Longrightarrow> d \<le> daysIn m 0 \<Longrightarrow>
   daysSinceYear1 0 m (int d) < 0"
  by (erule (1) month_cases)
     (simp_all add: daysSinceYear1_def daysBefore_values daysBefore_def isLeap_def daysIn_def)

lemma daysSinceYear1_zero_iff:
  assumes v: "validDate (int y) m d"
  shows "daysSinceYear1 (int y) m (int d) = 0 \<longleftrightarrow> y = 1 \<and> m = 1 \<and> d = 1"
proof -
  from v have m12: "1 \<le> m" "m \<le> 12" and d1: "1 \<le> d" "d \<le> daysIn m (int y)"
    by (simp_all add: validDate_def)
  consider "y = 0" | "y = 1" | "2 \<le> y" by linarith
  then show ?thesis
  proof cases
    case 1
    with daysSinceYear1_year0[OF m12, of d] d1 show ?thesis by simp
  next
    case 2
    have e: "daysSinceYear1 1 m (int d) = int (daysBefore (m - 1)) + int d - 1"
      by (simp add: daysSinceYear1_def isLeap_def)
    show ?thesis
    proof (cases "m = 1")
      case True
      with e 2 d1 show ?thesis by (auto simp: daysBefore_values)
    next
      case False
      with m12 have "2 \<le> m" by simp
      from daysBefore_pred_ge[OF this m12(2)] e 2 d1 False show ?thesis by simp
    qed
  next
    case 3
    then have k: "0 \<le> int y - 1" by simp
    have "365 \<le> 365 * (int y - 1)" using 3 by simp
    moreover have "0 \<le> (if isLeap (int y) \<and> 3 \<le> m then 1 else 0 :: int)" by simp
    moreover have "0 \<le> int d - 1" using d1 by simp
    moreover note leap_count_nonneg[OF k]
    ultimately have "0 < daysSinceYear1 (int y) m (int d)"
      unfolding daysSinceYear1_def by linarith
    with 3 show ?thesis by simp
  qed
qed

lemma daysSinceYear1_bound:
  assumes v: "validDate (int y) m d" and y: "y < 10000"
  shows "\<bar>daysSinceYear1 (int y) m (int d)\<bar> < 2 ^ 48"
proof -
  from v have m12: "1 \<le> m" "m \<le> 12" and d1: "1 \<le> d" "d \<le> daysIn m (int y)"
    by (simp_all add: validDate_def)
  have d31: "d \<le> 31" using daysIn_le[OF m12, of "int y"] d1 by simp
  note mb = daysBefore_pred_le[OF m12]
  define k where "k = int y - 1"
  have kb: "- 1 \<le> k" "k \<le> 9999" unfolding k_def using y by simp_all
  have "(- 1) div 4 \<le> k div 4" "k div 4 \<le> 9999 div 4" "(- 1) div 100 \<le> k div 100"
    "k div 100 \<le> 9999 div 100" "(- 1) div 400 \<le> k div 400" "k div 400 \<le> 9999 div 400"
    using kb by (simp_all add: zdiv_mono1)
  then have a: "- 1 \<le> k div 4" "k div 4 \<le> 2499" "- 1 \<le> k div 100" "k div 100 \<le> 99"
      "- 1 \<le> k div 400" "k div 400 \<le> 24"
    by simp_all
  have "daysSinceYear1 (int y) m (int d) = 365 * k + k div 4 - k div 100 + k div 400
       + int (daysBefore (m - 1)) + (if isLeap (int y) \<and> 3 \<le> m then 1 else 0) + (int d - 1)"
    unfolding daysSinceYear1_def k_def by simp
  with a kb mb d31 d1 have "- 1000 < daysSinceYear1 (int y) m (int d)"
     "daysSinceYear1 (int y) m (int d) < 4000000"
    by (simp_all split: if_splits)
  then show ?thesis by simp
qed


lemma instant_zeroTime: "instant zeroTime = 0"
  by (simp add: instant_def zeroTime_def daysSinceYear1_def daysBefore_values isLeap_def)

lemma dvd_days:
  fixes D :: int
  assumes "2 ^ 64 dvd D * 86400 * 1000000000" and "\<bar>D\<bar> < 2 ^ 48"
  shows "D = 0"
proof -
  have c: "D * 86400 * 1000000000 = 2 ^ 16 * (D * 1318359375)" by simp
  have "(2::int) ^ 64 = 2 ^ 16 * 2 ^ 48" by simp
  with assms(1) c have "(2::int) ^ 16 * 2 ^ 48 dvd 2 ^ 16 * (D * 1318359375)" by simp
  then have "(2::int) ^ 48 dvd D * 1318359375" by (simp only: dvd_mult_cancel_left) simp
  moreover have "coprime ((2::int) ^ 48) 1318359375"
    by (subst coprime_power_left_iff) (simp add: coprime_left_2_iff_odd)
  ultimately have "(2::int) ^ 48 dvd D" by (simp add: coprime_dvd_mult_left_iff)
  with assms(2) show ?thesis
    using dvd_imp_le_int[of D "2 ^ 48"] by (cases "D = 0") simp_all
qed

lemma UnixNano_nil_iff:
  assumes v: "validDate (int y) m d" and y: "y < 10000"
  shows "UnixNano \<lparr>year = int y, month = m, day = d, nanos = 0, zone = 0\<rparr> = nilTime
           \<longleftrightarrow> y = 1 \<and> m = 1 \<and> d = 1"
proof -
  define D where "D = daysSinceYear1 (int y) m (int d)"
  have i: "instant \<lparr>year = int y, month = m, day = d, nanos = 0, zone = 0\<rparr> = D * 86400 * 1000000000"
    by (simp add: instant_def D_def)
  have "UnixNano \<lparr>year = int y, month = m, day = d, nanos = 0, zone = 0\<rparr> = nilTime
      \<longleftrightarrow> (D * 86400 * 1000000000 - 62135596800 * 1000000000) mod 2 ^ 64
           = (0 - 62135596800 * 1000000000) mod (2 ^ 64 :: int)"
    unfolding nilTime_def UnixNano_def i instant_zeroTime
    by (simp only: word_of_int_eq_iff take_bit_eq_mod len_bit0 len_num1 mult_1_right) simp
  also have "\<dots> \<longleftrightarrow> (2 ^ 64 :: int) dvd D * 86400 * 1000000000"
    by (simp only: mod_eq_dvd_iff) simp
  also have "\<dots> \<longleftrightarrow> D = 0"
    using dvd_days[OF _ daysSinceYear1_bound[OF v y, folded D_def]] by auto
  also have "\<dots> \<longleftrightarrow> y = 1 \<and> m = 1 \<and> d = 1"
    unfolding D_def by (rule daysSinceYear1_zero_iff[OF v])
  finally show ?thesis .
qed


lemma Trim_quoted:
  assumes "s \<noteq> []" "hd s \<noteq> q" "last s \<noteq> q"
  shows "Trim (q # s @ [q]) q = s"
proof -
  from assms obtain a r where s: "s = a # r" "a \<noteq> q" by (cases s) auto
  from assms obtain b r' where s': "rev s = b # r'" "b \<noteq> q"
    by (cases "rev s") (auto simp: last_rev[symmetric] hd_rev)
  have "dropWhile (\<lambda>x. x = q) (q # s @ [q]) = s @ [q]" using s by simp
  moreover have "dropWhile (\<lambda>x. x = q) (rev (s @ [q])) = rev s" using s' by simp
  ultimately show ?thesis by (simp add: Trim_def)
qed

lemma Format_shape:
  assumes y: "y < 10000" and v: "validDate (int y) m d"
  shows "\<exists>a r b. Format \<lparr>year = int y, month = m, day = d, nanos = 0, zone = 0\<rparr> = a # r @ [b]
           \<and> a \<noteq> CHR 0x22 \<and> b \<noteq> CHR 0x22 \<and> length r = 8"
proof -
  from v have m12: "1 \<le> m" "m \<le> 12" and d1: "1 \<le> d" "d \<le> daysIn m (int y)"
    by (simp_all add: validDate_def)
  from m12 have m: "m < 100" by simp
  have d: "d < 100" using daysIn_le[OF m12, of "int y"] d1 by simp
  have "y div 1000 < 10" "d mod 10 < 10" using y by simp_all
  then have q: "digitChar (y div 1000) \<noteq> CHR 0x22" "digitChar (d mod 10) \<noteq> CHR 0x22"
    by (simp_all add: digitChar_quote)
  have "Format \<lparr>year = int y, month = m, day = d, nanos = 0, zone = 0\<rparr>
      = digitChar (y div 1000) # [digitChar (y div 100 mod 10), digitChar (y div 10 mod 10),
          digitChar (y mod 10), CHR ''-'', digitChar (m div 10), digitChar (m mod 10), CHR ''-'',
          digitChar (d div 10)] @ [digitChar (d mod 10)]"
    unfolding Format_def
    by (simp only: Time.simps appendInt_4[OF y] appendInt_2[OF m] appendInt_2[OF d]) simp
  with q show ?thesis by (intro exI conjI) (assumption, simp_all)
qed

lemma Format_zeroTime: "Format zeroTime = ''0001-01-01''"
  by code_simp

text \<open>
  Claim C6, as amended. Every text that the layout \<^verbatim>\<open>2006-01-02\<close> accepts, other than
  \<^verbatim>\<open>0001-01-01\<close>, survives the round trip through the codec: decoding the quoted
  text gives the parsed time without error, and encoding that time gives the quoted text
  back. The unset sentinel encodes to the token \<^verbatim>\<open>null\<close>, and \<^verbatim>\<open>null\<close> decodes to the
  sentinel, both without error. The date 0001-01-01 is excluded because it is the
  sentinel itself: \<^verbatim>\<open>MarshalJSON\<close> tests \<^verbatim>\<open>UnixNano() == nilTime\<close>, which holds for it.
\<close>

theorem codec_round_trip:
  assumes p: "Parse s = Some t" and n: "s \<noteq> ''0001-01-01''"
  shows "UnmarshalJSON rfc3339 ([CHR 0x22] @ s @ [CHR 0x22]) = Inr t
       \<and> MarshalJSON t = Inr ([CHR 0x22] @ s @ [CHR 0x22])
       \<and> UnmarshalJSON rfc3339 ''null'' = Inr zeroTime
       \<and> MarshalJSON zeroTime = Inr ''null''"
proof -
  from Parse_SomeD[OF p] obtain y m d where y: "y < 10000" and v: "validDate (int y) m d"
    and t: "t = \<lparr>year = int y, month = m, day = d, nanos = 0, zone = 0\<rparr>" and s: "s = Format t"
    by blast
  from Format_shape[OF y v] obtain a r b where f: "s = a # r @ [b]"
    and q: "a \<noteq> CHR 0x22" "b \<noteq> CHR 0x22" and l: "length r = 8"
    unfolding s t by blast
  have tr: "Trim ([CHR 0x22] @ s @ [CHR 0x22]) (CHR 0x22) = s"
    using Trim_quoted[of s "CHR 0x22"] f q by simp
  have "length s = 10" using f l by simp
  then have nn: "s \<noteq> ''null''" by auto
  have u: "UnmarshalJSON rfc3339 ([CHR 0x22] @ s @ [CHR 0x22]) = Inr t"
    unfolding UnmarshalJSON_def tr using nn p by simp
  note Format_zeroTime
  with n s have "t \<noteq> zeroTime" by auto
  then have "\<not> (y = 1 \<and> m = 1 \<and> d = 1)" unfolding t zeroTime_def by auto
  with UnixNano_nil_iff[OF v y] have "UnixNano t \<noteq> nilTime" unfolding t by simp
  then have mj: "MarshalJSON t = Inr ([CHR 0x22] @ s @ [CHR 0x22])"
    unfolding MarshalJSON_def s by simp
  have un: "UnmarshalJSON rfc3339 ''null'' = Inr zeroTime"
    by (simp add: UnmarshalJSON_def Trim_def)
  have mn: "MarshalJSON zeroTime = Inr ''null''"
    by (simp add: MarshalJSON_def nilTime_def)
  from u mj un mn show ?thesis by simp
qed

lemma Parse_example:
  "Parse ''2024-03-05'' = Some \<lparr>year = 2024, month = 3, day = 5, nanos = 0, zone = 0\<rparr>"
  by (simp add: isDigit_def digitVal_def less_eq_char_def validDate_def daysIn_def
      daysBefore_values isLeap_def)

theorem codec_round_trip_witness:
  "Parse ''2024-03-05'' = Some \<lparr>year = 2024, month = 3, day = 5, nanos = 0, zone = 0\<rparr>
   \<and> ''2024-03-05'' \<noteq> ''0001-01-01''
   \<and> UnmarshalJSON (\<lambda>s. Inl ''bad time'') ([CHR 0x22] @ ''2024-03-05'' @ [CHR 0x22])
        = Inr \<lparr>year = 2024, month = 3, day = 5, nanos = 0, zone = 0\<rparr>
   \<and> MarshalJSON \<lparr>year = 2024, month = 3, day = 5, nanos = 0, zone = 0\<rparr>
        = Inr ([CHR 0x22] @ ''2024-03-05'' @ [CHR 0x22])"
proof -
  have n: "''2024-03-05'' \<noteq> ''0001-01-01''" by simp
  from codec_round_trip[OF Parse_example n, of "\<lambda>s. Inl ''bad time''"] Parse_example n
  show ?thesis by simp
qed

text \<open>
  The claim as stated fails at \<^verbatim>\<open>0001-01-01\<close>: the text is canonical and denotes a valid
  date, it decodes to the zero time, and the zero time encodes to \<^verbatim>\<open>null\<close>.
\<close>

theorem codec_round_trip_counterexample:
  "UnmarshalJSON (\<lambda>s. Inl ''bad time'') ([CHR 0x22] @ ''0001-01-01'' @ [CHR 0x22]) = Inr zeroTime
   \<and> MarshalJSON zeroTime = Inr ''null''
   \<and> ''null'' \<noteq> [CHR 0x22] @ ''0001-01-01'' @ [CHR 0x22]"
proof -
  have p: "Parse ''0001-01-01'' = Some zeroTime"
    by (simp add: isDigit_def digitVal_def less_eq_char_def validDate_def daysIn_def
      daysBefore_values daysBefore_def isLeap_def zeroTime_def)
  have "Trim ([CHR 0x22] @ ''0001-01-01'' @ [CHR 0x22]) (CHR 0x22) = ''0001-01-01''"
    by (simp add: Trim_def)
  then have "UnmarshalJSON (\<lambda>s. Inl ''bad time'') ([CHR 0x22] @ ''0001-01-01'' @ [CHR 0x22])
      = Inr zeroTime"
    unfolding UnmarshalJSON_def using p by simp
  moreover have "MarshalJSON zeroTime = Inr ''null''"
    by (simp add: MarshalJSON_def nilTime_def)
  ultimately show ?thesis by simp
qed

section \<open>The rate cache's error discipline\<close>





lemma reply_cases_fst:
  "(case p of (Err err, r') \<Rightarrow> f err r' | (RedisNil, r') \<Rightarrow> g r' | (Val c, r') \<Rightarrow> h c r')
     = (case fst p of Err err \<Rightarrow> f err (snd p) | RedisNil \<Rightarrow> g (snd p) | Val c \<Rightarrow> h c (snd p))"
  by (cases p) (simp split: reply.splits)

text \<open>
  Claim C8, as amended. A read of the point rate or of the timeline returns the absent
  result without error exactly when the server reports the field not present; a read of
  the availability list returns it when the server reports the key not present and also
  when the stored payload decodes to the \<^verbatim>\<open>nil\<close> slice (the JSON \<^verbatim>\<open>null\<close>). Every read
  returns an error exactly when the server fails or the stored payload is malformed. A
  delete for which the server reports zero keys removed, and a hash write for which it
  reports zero fields created, return an error.
\<close>

theorem cache_error_discipline:
  "(Redis_GetAvailableCurrencies j r = Inr None
      \<longleftrightarrow> rds_Get r AvailableCurrencies = RedisNil
          \<or> (\<exists>p. rds_Get r AvailableCurrencies = Val p \<and> Unmarshal_available j p = Inr None))
   \<and> (Redis_GetCurrencyLastRate j r base second = Inr None
      \<longleftrightarrow> rds_HGet r CurrentTimeRateCollection base = RedisNil)
   \<and> (Redis_GetTimestampRate j r base second = Inr None
      \<longleftrightarrow> rds_HGet r TimeCollection (timelineField base second) = RedisNil)
   \<and> (isl (Redis_GetAvailableCurrencies j r)
      \<longleftrightarrow> (\<exists>e. rds_Get r AvailableCurrencies = Err e)
          \<or> (\<exists>p. rds_Get r AvailableCurrencies = Val p \<and> isl (Unmarshal_available j p)))
   \<and> (isl (Redis_GetCurrencyLastRate j r base second)
      \<longleftrightarrow> (\<exists>e. rds_HGet r CurrentTimeRateCollection base = Err e)
          \<or> (\<exists>p. rds_HGet r CurrentTimeRateCollection base = Val p \<and> isl (Unmarshal_rates j p)))
   \<and> (isl (Redis_GetTimestampRate j r base second)
      \<longleftrightarrow> (\<exists>e. rds_HGet r TimeCollection (timelineField base second) = Err e)
          \<or> (\<exists>p. rds_HGet r TimeCollection (timelineField base second) = Val p
                \<and> isl (Unmarshal_timeline j p)))
   \<and> (fst (rds_Del r AvailableCurrencies) = Val 0
      \<longrightarrow> fst (Redis_CleanCacheForAvailableCurrencies r) = Some ''deleted no info'')
   \<and> (\<forall>data. Marshal_rates j currencyRates = Inr data
         \<and> fst (rds_HSet r CurrentTimeRateCollection (CRs_Base currencyRates) data) = Val 0
      \<longrightarrow> fst (Redis_SetCurrencyLastRate j r currencyRates) = Some ''save no info'')
   \<and> (\<forall>data. Marshal_timeline j rate = Inr data
         \<and> fst (rds_HSet r TimeCollection (timelineField (CTR_Base rate) (CTR_Second rate)) data) = Val 0
      \<longrightarrow> fst (Redis_SaveTimestampRate j r rate) = Some ''save no info'')"
proof (intro conjI)
  show "Redis_GetAvailableCurrencies j r = Inr None
      \<longleftrightarrow> rds_Get r AvailableCurrencies = RedisNil
          \<or> (\<exists>p. rds_Get r AvailableCurrencies = Val p \<and> Unmarshal_available j p = Inr None)"
    by (auto simp: Redis_GetAvailableCurrencies_def split: reply.splits sum.splits)
  show "Redis_GetCurrencyLastRate j r base second = Inr None
      \<longleftrightarrow> rds_HGet r CurrentTimeRateCollection base = RedisNil"
    by (auto simp: Redis_GetCurrencyLastRate_def split: reply.splits sum.splits)
  show "Redis_GetTimestampRate j r base second = Inr None
      \<longleftrightarrow> rds_HGet r TimeCollection (timelineField base second) = RedisNil"
    by (auto simp: Redis_GetTimestampRate_def split: reply.splits sum.splits)
  show "isl (Redis_GetAvailableCurrencies j r)
      \<longleftrightarrow> (\<exists>e. rds_Get r AvailableCurrencies = Err e)
          \<or> (\<exists>p. rds_Get r AvailableCurrencies = Val p \<and> isl (Unmarshal_available j p))"
    by (auto simp: Redis_GetAvailableCurrencies_def split: reply.splits sum.splits)
  show "isl (Redis_GetCurrencyLastRate j r base second)
      \<longleftrightarrow> (\<exists>e. rds_HGet r CurrentTimeRateCollection base = Err e)
          \<or> (\<exists>p. rds_HGet r CurrentTimeRateCollection base = Val p \<and> isl (Unmarshal_rates j p))"
    by (auto simp: Redis_GetCurrencyLastRate_def split: reply.splits sum.splits)
  show "isl (Redis_GetTimestampRate j r base second)
      \<longleftrightarrow> (\<exists>e. rds_HGet r TimeCollection (timelineField base second) = Err e)
          \<or> (\<exists>p. rds_HGet r TimeCollection (timelineField base second) = Val p
                \<and> isl (Unmarshal_timeline j p))"
    by (auto simp: Redis_GetTimestampRate_def split: reply.splits sum.splits)
  show "fst (rds_Del r AvailableCurrencies) = Val 0
      \<longrightarrow> fst (Redis_CleanCacheForAvailableCurrencies r) = Some ''deleted no info''"
    by (simp add: Redis_CleanCacheForAvailableCurrencies_def reply_cases_fst)
  show "\<forall>data. Marshal_rates j currencyRates = Inr data
         \<and> fst (rds_HSet r CurrentTimeRateCollection (CRs_Base currencyRates) data) = Val 0
      \<longrightarrow> fst (Redis_SetCurrencyLastRate j r currencyRates) = Some ''save no info''"
    by (simp add: Redis_SetCurrencyLastRate_def reply_cases_fst)
  show "\<forall>data. Marshal_timeline j rate = Inr data
         \<and> fst (rds_HSet r TimeCollection (timelineField (CTR_Base rate) (CTR_Second rate)) data) = Val 0
      \<longrightarrow> fst (Redis_SaveTimestampRate j r rate) = Some ''save no info''"
    by (simp add: Redis_SaveTimestampRate_def reply_cases_fst)
qed


theorem cache_error_discipline_witness:
  "Redis_GetAvailableCurrencies json0 redis_filled = Inr None
   \<and> rds_Get redis_filled AvailableCurrencies = RedisNil
   \<and> rds_HGet redis_filled CurrentTimeRateCollection ''USD'' = Val ''old''
   \<and> isl (Unmarshal_rates json0 ''old'')
   \<and> isl (Redis_GetCurrencyLastRate json0 redis_filled ''USD'' ''EUR'')
   \<and> fst (rds_Del redis_filled AvailableCurrencies) = Val 0
   \<and> fst (Redis_CleanCacheForAvailableCurrencies redis_filled) = Some ''deleted no info''
   \<and> Marshal_rates json0 usd_rates = Inr ''{rates}''
   \<and> fst (rds_HSet redis_filled CurrentTimeRateCollection (CRs_Base usd_rates) ''{rates}'') = Val 0
   \<and> fst (Redis_SetCurrencyLastRate json0 redis_filled usd_rates) = Some ''save no info''
   \<and> Marshal_timeline json0 usd_eur_timeline = Inr ''{timeline}''
   \<and> fst (rds_HSet redis_filled TimeCollection
          (timelineField (CTR_Base usd_eur_timeline) (CTR_Second usd_eur_timeline)) ''{timeline}'') = Val 0
   \<and> fst (Redis_SaveTimestampRate json0 redis_filled usd_eur_timeline) = Some ''save no info''"
proof -
  have g: "rds_Get redis_filled AvailableCurrencies = RedisNil"
    by (simp add: rds_Get_def redis_filled_def)
  have h: "rds_HGet redis_filled CurrentTimeRateCollection ''USD'' = Val ''old''"
    by (simp add: rds_HGet_def redis_filled_def CurrentTimeRateCollection_def)
  have u: "isl (Unmarshal_rates json0 ''old'')" by (simp add: json0_def)
  have d: "fst (rds_Del redis_filled AvailableCurrencies) = Val 0"
    by (simp add: rds_Del_def redis_filled_def)
  have m1: "Marshal_rates json0 usd_rates = Inr ''{rates}''" by (simp add: json0_def)
  have s1: "fst (rds_HSet redis_filled CurrentTimeRateCollection (CRs_Base usd_rates) ''{rates}'') = Val 0"
    by (simp add: rds_HSet_def redis_filled_def CurrentTimeRateCollection_def usd_rates_def)
  have m2: "Marshal_timeline json0 usd_eur_timeline = Inr ''{timeline}''" by (simp add: json0_def)
  have s2: "fst (rds_HSet redis_filled TimeCollection
          (timelineField (CTR_Base usd_eur_timeline) (CTR_Second usd_eur_timeline)) ''{timeline}'') = Val 0"
    by (simp add: rds_HSet_def redis_filled_def TimeCollection_def usd_eur_timeline_def
        timelineField_def)
  from cache_error_discipline[of json0 redis_filled "''USD''" "''EUR''" usd_rates usd_eur_timeline]
    g h u d m1 s1 m2 s2
  show ?thesis by auto
qed

text \<open>
  As stated, the claim fails for the availability list: with the payload \<^verbatim>\<open>null\<close> stored
  under the key, the server reports a value, and the read returns the absent result
  without error.
\<close>

theorem cache_error_discipline_counterexample:
  "Redis_GetAvailableCurrencies json0 redis_null_available = Inr None
   \<and> rds_Get redis_null_available AvailableCurrencies = Val ''null''"
  by (simp add: Redis_GetAvailableCurrencies_def rds_Get_def redis_null_available_def
      AvailableCurrencies_def json0_def)

section \<open>The availability list\<close>

lemma banLess_distinct: "Currency a \<noteq> Currency b \<Longrightarrow> banLess a b = banBefore a b"
  by (auto simp: banLess_def banBefore_def)

lemma banBefore_total: "Currency a \<noteq> Currency b \<Longrightarrow> banBefore a b \<or> banBefore b a"
  by (auto simp: banBefore_def)

lemma banBefore_trans: "banBefore a b \<Longrightarrow> banBefore b c \<Longrightarrow> banBefore a c"
  by (auto simp: banBefore_def)

lemma set_bubble: "set (bubble lt x rs) = insert x (set rs)"
  by (induction rs) auto

lemma length_bubble: "length (bubble lt x rs) = Suc (length rs)"
  by (induction rs) auto

lemma bubble_sorted:
  assumes "sorted_wrt (\<lambda>a b. banBefore b a) rs" and "Currency x \<notin> Currency ` set rs"
  shows "sorted_wrt (\<lambda>a b. banBefore b a) (bubble banLess x rs)"
  using assms
proof (induction rs)
  case Nil
  then show ?case by simp
next
  case (Cons y ys)
  from Cons.prems(2) have ne: "Currency x \<noteq> Currency y" and nin: "Currency x \<notin> Currency ` set ys"
    by auto
  from Cons.prems(1) have sy: "\<forall>z\<in>set ys. banBefore z y"
    and st: "sorted_wrt (\<lambda>a b. banBefore b a) ys" by simp_all
  show ?case
  proof (cases "banLess x y")
    case True
    with ne have "banBefore x y" by (simp add: banLess_distinct)
    with sy have "\<forall>z\<in>set (bubble banLess x ys). banBefore z y" by (simp add: set_bubble)
    with True Cons.IH[OF st nin] show ?thesis by simp
  next
    case False
    with ne have "\<not> banBefore x y" by (simp add: banLess_distinct)
    with banBefore_total[OF ne] have yx: "banBefore y x" by blast
    with sy have "\<forall>z\<in>set ys. banBefore z x" by (blast intro: banBefore_trans)
    with False yx Cons.prems(1) show ?thesis by simp
  qed
qed

lemma foldl_bubble:
  assumes "sorted_wrt (\<lambda>a b. banBefore b a) acc" and "distinct (map Currency (rev acc @ xs))"
  shows "sorted_wrt (\<lambda>a b. banBefore b a) (foldl (\<lambda>pre x. bubble banLess x pre) acc xs)
       \<and> set (foldl (\<lambda>pre x. bubble banLess x pre) acc xs) = set acc \<union> set xs
       \<and> length (foldl (\<lambda>pre x. bubble banLess x pre) acc xs) = length acc + length xs"
  using assms
proof (induction xs arbitrary: acc)
  case Nil
  then show ?case by simp
next
  case (Cons x xs)
  from Cons.prems(2) have nin: "Currency x \<notin> Currency ` set acc" by auto
  have s: "sorted_wrt (\<lambda>a b. banBefore b a) (bubble banLess x acc)"
    by (rule bubble_sorted[OF Cons.prems(1) nin])
  have "set (map Currency (rev (bubble banLess x acc) @ xs)) = set (map Currency (rev acc @ x # xs))"
    by (auto simp: set_bubble)
  moreover have "length (map Currency (rev (bubble banLess x acc) @ xs))
      = length (map Currency (rev acc @ x # xs))"
    by (simp add: length_bubble)
  ultimately have d: "distinct (map Currency (rev (bubble banLess x acc) @ xs))"
    using Cons.prems(2) by (metis card_distinct distinct_card)
  from Cons.IH[OF s d] show ?case by (auto simp: set_bubble length_bubble)
qed

lemma SliceStable_banLess:
  assumes "distinct (map Currency xs)"
  shows "sorted_wrt banBefore (SliceStable banLess xs)"
    and "set (SliceStable banLess xs) = set xs"
    and "length (SliceStable banLess xs) = length xs"
  using foldl_bubble[of "[]" xs] assms
  by (simp_all add: SliceStable_def sorted_wrt_rev)


lemma banMap_foldl_Some:
  "foldl (\<lambda>m curr. m(Currency curr \<mapsto> curr)) m0 rows c = Some v
     \<Longrightarrow> v \<in> set rows \<and> Currency v = c \<or> m0 c = Some v"
  by (induction rows arbitrary: m0) (fastforce split: if_splits)+

lemma banMap_foldl_None:
  "foldl (\<lambda>m curr. m(Currency curr \<mapsto> curr)) m0 rows c = None
     \<longleftrightarrow> c \<notin> Currency ` set rows \<and> m0 c = None"
  by (induction rows arbitrary: m0) auto

lemma banMap_Some: "banMap rows c = Some v \<Longrightarrow> v \<in> set rows \<and> Currency v = c"
  using banMap_foldl_Some[of Map.empty rows c v] by (simp add: banMap_def)

lemma banMap_None: "banMap rows c = None \<longleftrightarrow> c \<notin> Currency ` set rows"
  using banMap_foldl_None[of Map.empty rows c] by (simp add: banMap_def)

lemma Currency_banEntry: "Currency (banEntry rows p) = fst p"
  by (cases p) (auto simp: banEntry_def dest: banMap_Some split: option.splits)

lemma banEntry_unlisted: "fst p \<notin> Currency ` set rows \<Longrightarrow> \<not> Banned (banEntry rows p)"
  by (cases p) (simp add: banEntry_def banMap_None[THEN iffD2])

lemma banStatuses_eq: "banStatuses s rows = SliceStable banLess (map (banEntry rows) (CodeToCurrency s))"
  by (simp add: banStatuses_def banEntry_def Let_def)

text \<open>
  Claim C4. For every list of rows that the ban store returns, the list the availability
  flow builds on a cache miss has exactly one entry for each code of the registry (the
  codes of the list are distinct and are the registry's, and the list is as long as the
  registry), an entry whose code has no row is not banned, and the list is in the order
  \<open>banBefore\<close>: banned entries first, and within each group the codes ascending. When the
  cache misses and the store answers, this list is the body of the 200 response. The
  keys of a Go map are distinct, which is the hypothesis on the registry.
\<close>

theorem availability_result:
  assumes d: "distinct (map fst (CodeToCurrency s))"
  shows "distinct (map Currency (banStatuses s rows))
       \<and> set (map Currency (banStatuses s rows)) = set (map fst (CodeToCurrency s))
       \<and> length (banStatuses s rows) = length (CodeToCurrency s)
       \<and> (\<forall>e\<in>set (banStatuses s rows). Currency e \<notin> Currency ` set rows \<longrightarrow> \<not> Banned e)
       \<and> sorted_wrt banBefore (banStatuses s rows)
       \<and> (cache_GetAvailableCurrencies s = Inr None \<and> CodeToCurrency s \<noteq> []
            \<and> db_Select s (map fst (CodeToCurrency s)) = Inr rows
            \<and> json_Encode s (Available (banStatuses s rows)) = None
          \<longrightarrow> resp (GetAvailableCurrencies s) = Response 200 (Available (banStatuses s rows)))"
proof -
  let ?xs = "map (banEntry rows) (CodeToCurrency s)"
  have c: "map Currency ?xs = map fst (CodeToCurrency s)"
    by (simp add: Currency_banEntry comp_def)
  have dx: "distinct (map Currency ?xs)" unfolding c by (rule d)
  note srt = SliceStable_banLess[OF dx, folded banStatuses_eq]
  have st: "set (map Currency (banStatuses s rows)) = set (map fst (CodeToCurrency s))"
    using srt(2) c by (metis set_map)
  have ln: "length (banStatuses s rows) = length (CodeToCurrency s)" using srt(3) by simp
  have ds: "distinct (map Currency (banStatuses s rows))"
    using st ln d by (metis card_distinct distinct_card length_map)
  have un: "\<forall>e\<in>set (banStatuses s rows). Currency e \<notin> Currency ` set rows \<longrightarrow> \<not> Banned e"
  proof (intro ballI impI)
    fix e assume "e \<in> set (banStatuses s rows)" and n: "Currency e \<notin> Currency ` set rows"
    then obtain p where "e = banEntry rows p" using srt(2) by auto
    with n show "\<not> Banned e" by (simp add: Currency_banEntry banEntry_unlisted)
  qed
  have h: "cache_GetAvailableCurrencies s = Inr None \<and> CodeToCurrency s \<noteq> []
            \<and> db_Select s (map fst (CodeToCurrency s)) = Inr rows
            \<and> json_Encode s (Available (banStatuses s rows)) = None
          \<longrightarrow> resp (GetAvailableCurrencies s) = Response 200 (Available (banStatuses s rows))"
    by (simp add: GetAvailableCurrencies_def sqlx_In_def writeJSON_def Let_def)
  from ds st ln un srt(1) h show ?thesis by blast
qed

lemma banStatuses_example:
  "banStatuses deps0 [\<lparr>Currency = ''USD'', Banned = False\<rparr>, \<lparr>Currency = ''EUR'', Banned = True\<rparr>,
                      \<lparr>Currency = ''GBP'', Banned = True\<rparr>]
     = [\<lparr>Currency = ''EUR'', Banned = True\<rparr>, \<lparr>Currency = ''GBP'', Banned = True\<rparr>,
        \<lparr>Currency = ''USD'', Banned = False\<rparr>]"
  by (simp add: banStatuses_def banMap_def deps0_def SliceStable_def banLess_def less_eq_char_def)


theorem availability_result_witness:
  "distinct (map fst (CodeToCurrency deps0))
   \<and> cache_GetAvailableCurrencies deps0 = Inr None
   \<and> CodeToCurrency deps0 \<noteq> []
   \<and> db_Select deps0 (map fst (CodeToCurrency deps0))
        = Inr [\<lparr>Currency = ''USD'', Banned = False\<rparr>, \<lparr>Currency = ''EUR'', Banned = True\<rparr>,
               \<lparr>Currency = ''GBP'', Banned = True\<rparr>]
   \<and> sorted_wrt banBefore
        [\<lparr>Currency = ''EUR'', Banned = True\<rparr>, \<lparr>Currency = ''GBP'', Banned = True\<rparr>,
         \<lparr>Currency = ''USD'', Banned = False\<rparr>]
   \<and> resp (GetAvailableCurrencies deps0)
        = Response 200 (Available
            [\<lparr>Currency = ''EUR'', Banned = True\<rparr>, \<lparr>Currency = ''GBP'', Banned = True\<rparr>,
             \<lparr>Currency = ''USD'', Banned = False\<rparr>])"
proof -
  let ?rows = "[\<lparr>Currency = ''USD'', Banned = False\<rparr>, \<lparr>Currency = ''EUR'', Banned = True\<rparr>,
                \<lparr>Currency = ''GBP'', Banned = True\<rparr>]"
  have d: "distinct (map fst (CodeToCurrency deps0))" by (simp add: deps0_def)
  have h: "cache_GetAvailableCurrencies deps0 = Inr None" "CodeToCurrency deps0 \<noteq> []"
    "db_Select deps0 (map fst (CodeToCurrency deps0)) = Inr ?rows"
    "json_Encode deps0 (Available (banStatuses deps0 ?rows)) = None"
    by (simp_all add: deps0_def)
  from availability_result[OF d, of ?rows] h
  have "sorted_wrt banBefore (banStatuses deps0 ?rows)"
    and "resp (GetAvailableCurrencies deps0) = Response 200 (Available (banStatuses deps0 ?rows))"
    by blast+
  with d h(1-3) show ?thesis unfolding banStatuses_example by simp
qed

end
